theory Spec2Isabelle
  imports Main "HOL-Library.Word" "HOL-Library.Signed_Division"
begin

section \<open>Identifier space (server.ts, lines 8-36)\<close>

text \<open>
  The identifier of a node and the identifier of a key are JavaScript \<^verbatim>\<open>bigint\<close> values,
  modelled as \<^typ>\<open>int\<close>.  The ring width \<^verbatim>\<open>m\<close> is a JavaScript number that the program
  only ever uses as a bit count; it is modelled as \<^typ>\<open>nat\<close>.  The SHA-1 digest comes from
  Node's \<^verbatim>\<open>crypto\<close> library, which is not part of the repository: \<^verbatim>\<open>hashToID\<close> takes the
  digest function as its first argument, a function from the string to the bytes of the
  digest.  A string is a list of code units below 256.
\<close>

type_synonym digest = "string \<Rightarrow> 8 word list"

text \<open>
  \<^verbatim>\<open>
  function hashToID(str: string, m: number): bigint {
      const hash = crypto.createHash('sha1').update(str).digest();
      const bitsNeeded = m;
      const bytesNeeded = Math.ceil(bitsNeeded / 8);
      const sliced = hash.slice(0, bytesNeeded);
      let id = BigInt(0);
      for (let i = 0; i < sliced.length; i++) {
          id = (id << BigInt(8)) + BigInt(sliced[i]);
      }
      const excessBits = (bytesNeeded * 8) - bitsNeeded;
      if (excessBits > 0) {
          id = id >> BigInt(excessBits);
      }
      return id;
  }
  \<close>
\<close>

definition hashToID :: "digest \<Rightarrow> string \<Rightarrow> nat \<Rightarrow> int" where
  "hashToID sha1 str m =
     (let hash = sha1 str;
          bitsNeeded = m;
          bytesNeeded = (bitsNeeded + 7) div 8;
          sliced = take bytesNeeded hash;
          id = foldl (\<lambda>id b. push_bit 8 id + uint b) (0::int) sliced;
          excessBits = int (bytesNeeded * 8) - int bitsNeeded
      in if excessBits > 0 then drop_bit (nat excessBits) id else id)"

subsection \<open>Identifiers at run time\<close>

text \<open>
  The interface \<^verbatim>\<open>NodeEntry\<close> declares \<^verbatim>\<open>id: bigint\<close>, but an entry that the program did not
  make itself comes out of a JSON response: the \<^verbatim>\<open>/info\<close> handler writes every
  \<^verbatim>\<open>bigint\<close> as the string of its decimal digits (lines 169-173) and \<^verbatim>\<open>fetchNodeInfo\<close> stores
  what it reads (lines 145-147).  So the \<^verbatim>\<open>id\<close> of an entry is, at run time, a \<^verbatim>\<open>bigint\<close> or a
  string, and the operators \<^verbatim>\<open><\<close>, \<^verbatim>\<open>>\<close>, \<^verbatim>\<open><=\<close>, \<^verbatim>\<open>>=\<close> and \<^verbatim>\<open>===\<close> are applied to both.
\<close>

datatype jsid = Big int | Str string

text \<open>
  The conversion of a string to a \<^verbatim>\<open>bigint\<close> that a comparison of the two applies
  (\<^verbatim>\<open>StringToBigInt\<close> of the language): white space at both ends is dropped; the empty
  string is 0; else the string is a run of decimal digits, with or without a sign, or one
  of the prefixes \<^verbatim>\<open>0x\<close>, \<^verbatim>\<open>0o\<close>, \<^verbatim>\<open>0b\<close> and a run of digits of that radix; any other
  string has no value.
\<close>

definition isStrWhiteSpace :: "char \<Rightarrow> bool" where
  "isStrWhiteSpace c \<longleftrightarrow> (of_char c :: nat) \<in> {9, 10, 11, 12, 13, 32, 160}"

definition trimString :: "string \<Rightarrow> string" where
  "trimString s = rev (dropWhile isStrWhiteSpace (rev (dropWhile isStrWhiteSpace s)))"

fun indexOf :: "char \<Rightarrow> string \<Rightarrow> nat \<Rightarrow> nat option" where
  "indexOf c [] i = None"
| "indexOf c (x # xs) i = (if c = x then Some i else indexOf c xs (i + 1))"

definition digitValue :: "char \<Rightarrow> nat option" where
  "digitValue c =
     (case indexOf c ''0123456789abcdef'' 0 of
        Some d \<Rightarrow> Some d
      | None \<Rightarrow> indexOf c ''ABCDEF'' 10)"

fun parseDigits :: "nat \<Rightarrow> string \<Rightarrow> int \<Rightarrow> int option" where
  "parseDigits radix [] acc = Some acc"
| "parseDigits radix (c # cs) acc =
     (case digitValue c of
        Some d \<Rightarrow> if d < radix then parseDigits radix cs (acc * int radix + int d) else None
      | None \<Rightarrow> None)"

definition parseRadix :: "nat \<Rightarrow> string \<Rightarrow> int option" where
  "parseRadix radix s = (if s = [] then None else parseDigits radix s 0)"

definition StringToBigInt :: "string \<Rightarrow> int option" where
  "StringToBigInt str =
     (case trimString str of
        [] \<Rightarrow> Some 0
      | c # r \<Rightarrow>
          if c = CHR ''+'' then parseRadix 10 r
          else if c = CHR ''-'' then map_option uminus (parseRadix 10 r)
          else if c = CHR ''0'' \<and> r \<noteq> [] \<and> (hd r = CHR ''x'' \<or> hd r = CHR ''X'')
            then parseRadix 16 (tl r)
          else if c = CHR ''0'' \<and> r \<noteq> [] \<and> (hd r = CHR ''o'' \<or> hd r = CHR ''O'')
            then parseRadix 8 (tl r)
          else if c = CHR ''0'' \<and> r \<noteq> [] \<and> (hd r = CHR ''b'' \<or> hd r = CHR ''B'')
            then parseRadix 2 (tl r)
          else parseRadix 10 (c # r))"

text \<open>The number an identifier stands for, if any.\<close>

fun idNumber :: "jsid \<Rightarrow> int option" where
  "idNumber (Big n) = Some n"
| "idNumber (Str s) = StringToBigInt s"

text \<open>Two strings are compared code unit by code unit; a proper prefix is the smaller.\<close>

fun stringLess :: "string \<Rightarrow> string \<Rightarrow> bool" where
  "stringLess [] [] = False"
| "stringLess [] (y # ys) = True"
| "stringLess (x # xs) [] = False"
| "stringLess (x # xs) (y # ys) =
     (if (of_char x :: nat) < of_char y then True
      else if (of_char y :: nat) < of_char x then False
      else stringLess xs ys)"

text \<open>
  The comparison underlying the four relational operators (\<^verbatim>\<open>IsLessThan\<close> of the
  language): two strings are compared as strings, a string and a \<^verbatim>\<open>bigint\<close> as numbers, and
  the result is undefined (\<open>None\<close>) when the string has no value.  \<^verbatim>\<open>a < b\<close> and \<^verbatim>\<open>a > b\<close>
  are true when the comparison is true; \<^verbatim>\<open>a <= b\<close> and \<^verbatim>\<open>a >= b\<close> are true when the opposite
  comparison is false; an undefined comparison makes all four false.  \<^verbatim>\<open>a === b\<close> is the
  equality of \<^typ>\<open>jsid\<close>: a string is never equal to a \<^verbatim>\<open>bigint\<close>.
\<close>

fun IsLessThan :: "jsid \<Rightarrow> jsid \<Rightarrow> bool option" where
  "IsLessThan (Big x) (Big y) = Some (x < y)"
| "IsLessThan (Big x) (Str y) = map_option (\<lambda>ny. x < ny) (StringToBigInt y)"
| "IsLessThan (Str x) (Big y) = map_option (\<lambda>nx. nx < y) (StringToBigInt x)"
| "IsLessThan (Str x) (Str y) = Some (stringLess x y)"

definition js_less :: "jsid \<Rightarrow> jsid \<Rightarrow> bool" where
  "js_less a b \<longleftrightarrow> IsLessThan a b = Some True"

definition js_greater :: "jsid \<Rightarrow> jsid \<Rightarrow> bool" where
  "js_greater a b \<longleftrightarrow> IsLessThan b a = Some True"

definition js_less_eq :: "jsid \<Rightarrow> jsid \<Rightarrow> bool" where
  "js_less_eq a b \<longleftrightarrow> IsLessThan b a = Some False"

definition js_greater_eq :: "jsid \<Rightarrow> jsid \<Rightarrow> bool" where
  "js_greater_eq a b \<longleftrightarrow> IsLessThan a b = Some False"

text \<open>
  \<^verbatim>\<open>
  function inInterval(key: bigint, start: bigint, end: bigint, ringSize: bigint): boolean {
      if (start < end) {
          return (key > start && key <= end);
      } else {
          return (key > start && key < ringSize) || (key >= BigInt(0) && key <= end);
      }
  }
  \<close>
  The callers pass the \<^verbatim>\<open>id\<close> of entries for \<^verbatim>\<open>key\<close> and \<^verbatim>\<open>end\<close>, so the arguments are of
  type \<^typ>\<open>jsid\<close>.
\<close>

definition inInterval :: "jsid \<Rightarrow> jsid \<Rightarrow> jsid \<Rightarrow> jsid \<Rightarrow> bool" where
  "inInterval key start end ringSize =
     (if js_less start end then js_greater key start \<and> js_less_eq key end
      else (js_greater key start \<and> js_less key ringSize) \<or>
           (js_greater_eq key (Big 0) \<and> js_less_eq key end))"

text \<open>\<^verbatim>\<open>toString()\<close> of a \<^verbatim>\<open>bigint\<close>: its decimal digits, after a minus sign if negative.\<close>

function decimal :: "nat \<Rightarrow> string" where
  "decimal n =
     (if n < 10 then [''0123456789'' ! n]
      else decimal (n div 10) @ [''0123456789'' ! (n mod 10)])"
  by pat_completeness auto
termination
  by (relation "measure (\<lambda>n. n)") auto

declare decimal.simps [simp del]

definition toString :: "int \<Rightarrow> string" where
  "toString i = (if i < 0 then CHR ''-'' # decimal (nat (- i)) else decimal (nat i))"

section \<open>Node state (server.ts, lines 38-64)\<close>

text \<open>
  \<^verbatim>\<open>interface NodeEntry { id: bigint; url: string; }\<close>  The fields of the class \<^verbatim>\<open>Node\<close>
  keep their names, prefixed where a name is taken in HOL or shared between the two types.
  The node's own \<^verbatim>\<open>id\<close> and \<^verbatim>\<open>ringSize\<close> are assigned in the constructor only and are
  \<^verbatim>\<open>bigint\<close>s.  The key-value store is a \<^verbatim>\<open>Map<bigint, {originalKey, value}>\<close>.
\<close>

record NodeEntry =
  entry_id :: jsid
  entry_url :: string

record Node =
  node_id :: int
  node_url :: string
  kvStore :: "int \<rightharpoonup> (string \<times> string)"
  node_m :: nat
  ringSize :: int
  fingerTable :: "NodeEntry option list"
  predecessor :: "NodeEntry option"
  successor :: NodeEntry
  stabilizeInterval :: nat

text \<open>
  The constructor (lines 54-64).  Its second parameter \<^verbatim>\<open>dummy\<close> is never read.
  \<^verbatim>\<open>new Array(m).fill(null)\<close> is a list of \<^verbatim>\<open>m\<close> absent entries and
  \<^verbatim>\<open>BigInt(1) << BigInt(m)\<close> is \<open>push_bit m 1\<close>.
\<close>

definition new_Node :: "digest \<Rightarrow> string \<Rightarrow> nat \<Rightarrow> nat \<Rightarrow> Node" where
  "new_Node sha1 url m interval =
     \<lparr>node_id = hashToID sha1 url m,
      node_url = url,
      kvStore = Map.empty,
      node_m = m,
      ringSize = push_bit m 1,
      fingerTable = replicate m None,
      predecessor = None,
      successor = \<lparr>entry_id = Big (hashToID sha1 url m), entry_url = url\<rparr>,
      stabilizeInterval = interval\<rparr>"

text \<open>
  An assignment \<^verbatim>\<open>a[i] = v\<close> to a JavaScript array: in range it overwrites, beyond the end
  it extends the array, leaving holes that read as absent.
\<close>

definition array_set :: "'a option list \<Rightarrow> nat \<Rightarrow> 'a option \<Rightarrow> 'a option list" where
  "array_set xs i v =
     (if i < length xs then xs[i := v] else xs @ replicate (i - length xs) None @ [v])"

section \<open>The network\<close>

text \<open>
  Every remote call goes through \<^verbatim>\<open>axios\<close>.  The model records each call in a trace and
  takes the peers' behaviour as a parameter: a \<open>world\<close> answers a request, given the calls
  made before it, with a value or with the error \<^verbatim>\<open>axios\<close> throws.  A world that ignores the
  history is a network whose nodes do not change; one that reads it returns a different
  snapshot at every fetch.

  The bodies the \<^verbatim>\<open>/put\<close> handler sends, and relays:
\<close>

datatype body =
    TTLExpired
  | KeyStored string string string
  | ForwardFailed string
  | OtherBody string

text \<open>
  \<^verbatim>\<open>axios\<close> throws when the request fails and when the response has an error status; the
  message of the latter names the status.
\<close>

datatype error = AxiosError string | AxiosStatus nat body | RangeError string

fun message :: "error \<Rightarrow> string" where
  "message (AxiosError s) = s"
| "message (AxiosStatus status b) = ''Request failed with status code '' @ decimal status"
| "message (RangeError s) = s"

text \<open>
  A JSON value of a request body is kept as its text.  The notify request carries
  \<^verbatim>\<open>this.id.toString()\<close>.
\<close>

type_synonym json = string

datatype request =
    GetInfo string
  | PostNotify string string string
  | PostPut string string string json

type_synonym trace = "request list"

text \<open>
  The fields of the \<^verbatim>\<open>/info\<close> response that \<^verbatim>\<open>fetchNodeInfo\<close> reads (lines 168-184 produce
  them).  An entry of the response has a string for its \<^verbatim>\<open>id\<close>.
\<close>

record WireEntry =
  wire_id :: string
  wire_url :: string

record NodeInfo =
  info_url :: string
  info_m :: nat
  info_predecessor :: "WireEntry option"
  info_successor :: WireEntry
  info_fingerTable :: "WireEntry option list"
  info_stabilizeInterval :: nat

text \<open>
  The handler of \<^verbatim>\<open>GET /info\<close> (lines 168-184):
  \<^verbatim>\<open>
  const stringifyBigInt = (obj: any) => {
      return JSON.parse(JSON.stringify(obj, (key, value) =>
          typeof value === 'bigint' ? value.toString() : value));
  };
  res.json(stringifyBigInt({ url: node.url, m: node.m, predecessor: node.predecessor,
      successor: node.successor, fingerTable: node.fingerTable,
      stabilizeInterval: node.stabilizeInterval, keyValue: node.kvStore }));
  \<close>
  Every \<^verbatim>\<open>bigint\<close> of the node's state is written as the string of its decimal digits; an
  identifier that is a string already stays as it is.  The field \<^verbatim>\<open>keyValue\<close> is not among
  those \<^verbatim>\<open>fetchNodeInfo\<close> reads.
\<close>

definition stringifyBigInt :: "NodeEntry \<Rightarrow> WireEntry" where
  "stringifyBigInt e =
     \<lparr>wire_id = (case entry_id e of Big n \<Rightarrow> toString n | Str s \<Rightarrow> s),
      wire_url = entry_url e\<rparr>"

definition infoHandler :: "Node \<Rightarrow> NodeInfo" where
  "infoHandler node =
     \<lparr>info_url = node_url node, info_m = node_m node,
      info_predecessor = map_option stringifyBigInt (predecessor node),
      info_successor = stringifyBigInt (successor node),
      info_fingerTable = map (map_option stringifyBigInt) (fingerTable node),
      info_stabilizeInterval = stabilizeInterval node\<rparr>"

record world =
  info_reply :: "trace \<Rightarrow> string \<Rightarrow> error + NodeInfo"
  notify_reply :: "trace \<Rightarrow> string \<Rightarrow> string \<Rightarrow> string \<Rightarrow> error + unit"
  put_reply :: "trace \<Rightarrow> string \<Rightarrow> string \<Rightarrow> string \<Rightarrow> json \<Rightarrow> error + body"

text \<open>
  \<^verbatim>\<open>
  async function fetchNodeInfo(url: string, context: Node): Promise<Node> {
      const resp = await axios.get(`${url}/info`);
      const data = resp.data;
      const n = new Node(data.url, data.dummy, data.m, data.stabilizeInterval);
      n.predecessor = data.predecessor;
      n.successor = data.successor;
      n.fingerTable = data.fingerTable;
      return n as typeof context;
  }
  \<close>
  The parameter \<^verbatim>\<open>context\<close> only types the result.  \<open>nodeOfInfo\<close> is the object built
  from the response: its own \<^verbatim>\<open>id\<close> is hashed from the address, and its entries are those
  of the response as they are, with strings for identifiers.  \<open>fetchNodeInfo\<close> is the
  call, which throws when the request fails.
\<close>

definition fromWire :: "WireEntry \<Rightarrow> NodeEntry" where
  "fromWire e = \<lparr>entry_id = Str (wire_id e), entry_url = wire_url e\<rparr>"

definition nodeOfInfo :: "digest \<Rightarrow> NodeInfo \<Rightarrow> Node" where
  "nodeOfInfo sha1 data =
     (new_Node sha1 (info_url data) (info_m data) (info_stabilizeInterval data))
       \<lparr>predecessor := map_option fromWire (info_predecessor data),
        successor := fromWire (info_successor data),
        fingerTable := map (map_option fromWire) (info_fingerTable data)\<rparr>"

definition fetchNodeInfo :: "digest \<Rightarrow> world \<Rightarrow> string \<Rightarrow> trace \<Rightarrow> (error + Node) \<times> trace" where
  "fetchNodeInfo sha1 w url tr =
     (case info_reply w tr url of
        Inl e \<Rightarrow> (Inl e, tr @ [GetInfo url])
      | Inr data \<Rightarrow> (Inr (nodeOfInfo sha1 data), tr @ [GetInfo url]))"

section \<open>Lookup (server.ts, lines 66-97)\<close>

text \<open>
  \<^verbatim>\<open>
  closestPrecedingNode(key: bigint): NodeEntry {
      for (let i = this.fingerTable.length - 1; i >= 0; i--) {
          const ft = this.fingerTable[i];
          if (ft && inInterval(ft.id, this.id, key, this.ringSize)) {
              return ft;
          }
      }
      return { id: this.id, url: this.url };
  }
  \<close>
  \<open>scanFingers this key k\<close> is the loop with \<open>k\<close> slots left to look at, the next one
  being slot \<open>k - 1\<close>.
\<close>

fun scanFingers :: "Node \<Rightarrow> int \<Rightarrow> nat \<Rightarrow> NodeEntry" where
  "scanFingers this key 0 = \<lparr>entry_id = Big (node_id this), entry_url = node_url this\<rparr>"
| "scanFingers this key (Suc i) =
     (case fingerTable this ! i of
        Some ft \<Rightarrow>
          if inInterval (entry_id ft) (Big (node_id this)) (Big key) (Big (ringSize this)) then ft
          else scanFingers this key i
      | None \<Rightarrow> scanFingers this key i)"

definition closestPrecedingNode :: "Node \<Rightarrow> int \<Rightarrow> NodeEntry" where
  "closestPrecedingNode this key = scanFingers this key (length (fingerTable this))"

text \<open>
  \<^verbatim>\<open>
  let currentNode: Node = this;
  while (!inInterval(key, currentNode.id, currentNode.successor.id, currentNode.ringSize)) {
      const cpNode = currentNode.closestPrecedingNode(key);
      if (cpNode.id === currentNode.id) break;
      currentNode = await fetchNodeInfo(cpNode.url, this) as this;
  }
  \<close>
  \<^verbatim>\<open>findSuccessor\<close> and \<^verbatim>\<open>findPredecessor\<close> contain this loop word for word.  It has no
  bound, so it is a partial function: \<open>None\<close> is a loop that never ends.  A result
  \<open>Some (Inl e, tr)\<close> is the exception of a failed fetch, \<open>Some (Inr n, tr)\<close> the node the
  loop ends on; \<open>tr\<close> is the trace of the calls made.
\<close>

partial_function (option) lookupLoop ::
  "digest \<Rightarrow> world \<Rightarrow> int \<Rightarrow> Node \<Rightarrow> trace \<Rightarrow> ((error + Node) \<times> trace) option" where
  "lookupLoop sha1 w key currentNode tr =
     (if \<not> inInterval (Big key) (Big (node_id currentNode)) (entry_id (successor currentNode))
              (Big (ringSize currentNode))
      then
        (let cpNode = closestPrecedingNode currentNode key
         in if entry_id cpNode = Big (node_id currentNode) then Some (Inr currentNode, tr)
            else
              (case fetchNodeInfo sha1 w (entry_url cpNode) tr of
                 (Inl e, tr') \<Rightarrow> Some (Inl e, tr')
               | (Inr n, tr') \<Rightarrow> lookupLoop sha1 w key n tr'))
      else Some (Inr currentNode, tr))"

definition findSuccessor ::
  "digest \<Rightarrow> world \<Rightarrow> Node \<Rightarrow> string \<Rightarrow> trace \<Rightarrow> ((error + NodeEntry) \<times> trace) option" where
  "findSuccessor sha1 w this keyStr tr =
     (let key = hashToID sha1 keyStr (node_m this)
      in case lookupLoop sha1 w key this tr of
           None \<Rightarrow> None
         | Some (Inl e, tr') \<Rightarrow> Some (Inl e, tr')
         | Some (Inr currentNode, tr') \<Rightarrow> Some (Inr (successor currentNode), tr'))"

definition findPredecessor ::
  "digest \<Rightarrow> world \<Rightarrow> Node \<Rightarrow> string \<Rightarrow> trace \<Rightarrow> ((error + Node) \<times> trace) option" where
  "findPredecessor sha1 w this keyStr tr =
     (let key = hashToID sha1 keyStr (node_m this)
      in lookupLoop sha1 w key this tr)"

section \<open>Ring maintenance (server.ts, lines 99-139)\<close>

text \<open>
  A method that assigns to fields and may throw returns the exception, if any, next to the
  node as the assignments made before the throw left it, and the trace.  Where the method
  runs a lookup the whole result is optional: \<open>None\<close> is a call that never returns.

  \<^verbatim>\<open>
  async join(existingNodeUrl: string | null) {
      if (existingNodeUrl !== null) {
          const succ = await (await fetchNodeInfo(existingNodeUrl, this)).findSuccessor(this.url);
          this.predecessor = null;
          this.successor = succ;
      } else {
          this.predecessor = { id: this.id, url: this.url };
          this.successor = { id: this.id, url: this.url };
      }
      this.fingerTable[0] = this.successor;
  }
  \<close>
\<close>

definition join ::
  "digest \<Rightarrow> world \<Rightarrow> Node \<Rightarrow> string option \<Rightarrow> trace \<Rightarrow> (error option \<times> Node \<times> trace) option" where
  "join sha1 w this existingNodeUrl tr =
     (case existingNodeUrl of
        Some existing \<Rightarrow>
          (case fetchNodeInfo sha1 w existing tr of
             (Inl e, tr1) \<Rightarrow> Some (Some e, this, tr1)
           | (Inr n, tr1) \<Rightarrow>
               (case findSuccessor sha1 w n (node_url this) tr1 of
                  None \<Rightarrow> None
                | Some (Inl e, tr2) \<Rightarrow> Some (Some e, this, tr2)
                | Some (Inr succ, tr2) \<Rightarrow>
                    Some (None,
                          this\<lparr>predecessor := None, successor := succ,
                               fingerTable := array_set (fingerTable this) 0 (Some succ)\<rparr>,
                          tr2)))
      | None \<Rightarrow>
          Some (None,
                this\<lparr>predecessor := Some \<lparr>entry_id = Big (node_id this), entry_url = node_url this\<rparr>,
                     successor := \<lparr>entry_id = Big (node_id this), entry_url = node_url this\<rparr>,
                     fingerTable :=
                       array_set (fingerTable this) 0
                         (Some \<lparr>entry_id = Big (node_id this), entry_url = node_url this\<rparr>)\<rparr>,
                tr))"

text \<open>
  \<^verbatim>\<open>
  async stabilize() {
      if (this.successor.id === this.id && this.predecessor === null) return;
      const successorNode = await fetchNodeInfo(this.successor.url, this);
      const x = successorNode.predecessor;
      if (x !== null && inInterval(x.id, this.id, this.successor.id, this.ringSize)) {
          this.successor = x;
      }
      await axios.post(`${this.successor.url}/notify`, { id: this.id.toString(), url: this.url, });
  }
  \<close>
\<close>

definition stabilize :: "digest \<Rightarrow> world \<Rightarrow> Node \<Rightarrow> trace \<Rightarrow> error option \<times> Node \<times> trace" where
  "stabilize sha1 w this tr =
     (if entry_id (successor this) = Big (node_id this) \<and> predecessor this = None
      then (None, this, tr)
      else
        (case fetchNodeInfo sha1 w (entry_url (successor this)) tr of
           (Inl e, tr1) \<Rightarrow> (Some e, this, tr1)
         | (Inr successorNode, tr1) \<Rightarrow>
             (let this1 =
                    (case predecessor successorNode of
                       Some x \<Rightarrow>
                         if inInterval (entry_id x) (Big (node_id this)) (entry_id (successor this))
                              (Big (ringSize this))
                         then this\<lparr>successor := x\<rparr> else this
                     | None \<Rightarrow> this);
                  tr2 = tr1 @ [PostNotify (entry_url (successor this1)) (toString (node_id this1))
                                 (node_url this1)]
              in case notify_reply w tr1 (entry_url (successor this1)) (toString (node_id this1))
                        (node_url this1) of
                   Inl e \<Rightarrow> (Some e, this1, tr2)
                 | Inr u \<Rightarrow> (None, this1, tr2))))"



text \<open>
  \<^verbatim>\<open>
  async fixFingers() {
      const randomIndex = Math.floor(Math.random() * this.fingerTable.length);
      const start = (this.id + (BigInt(1) << BigInt(randomIndex))) % this.ringSize;
      const startKeyStr = `${this.url}#finger${start.toString()}`;
      const successor = await this.findSuccessor(startKeyStr);
      this.fingerTable[randomIndex] = successor;
  }
  \<close>
  The random draw is a parameter: \<open>randomIndex\<close> is the value of
  \<^verbatim>\<open>Math.floor(Math.random() * this.fingerTable.length)\<close>, an index below the length of the
  table (and 0 when the table is empty).  The remainder of two \<^verbatim>\<open>bigint\<close>s truncates
  towards zero and throws a \<^verbatim>\<open>RangeError\<close> on a zero divisor.
\<close>

definition fingerStart :: "Node \<Rightarrow> nat \<Rightarrow> int" where
  "fingerStart this randomIndex = (node_id this + push_bit randomIndex 1) smod ringSize this"

definition startKeyStr :: "Node \<Rightarrow> nat \<Rightarrow> string" where
  "startKeyStr this randomIndex =
     node_url this @ ''#finger'' @ toString (fingerStart this randomIndex)"

definition fixFingers ::
  "digest \<Rightarrow> world \<Rightarrow> Node \<Rightarrow> nat \<Rightarrow> trace \<Rightarrow> (error option \<times> Node \<times> trace) option" where
  "fixFingers sha1 w this randomIndex tr =
     (if ringSize this = 0 then Some (Some (RangeError ''Division by zero''), this, tr)
      else
        (case findSuccessor sha1 w this (startKeyStr this randomIndex) tr of
           None \<Rightarrow> None
         | Some (Inl e, tr1) \<Rightarrow> Some (Some e, this, tr1)
         | Some (Inr succ, tr1) \<Rightarrow>
             Some (None,
                   this\<lparr>fingerTable := array_set (fingerTable this) randomIndex (Some succ)\<rparr>,
                   tr1)))"



section \<open>Key-value routing (server.ts, lines 220-245)\<close>

text \<open>
  \<^verbatim>\<open>
  app.post('/put', async (req, res) => {
      const { key, value, ttl = 10 } = req.body;
      if (ttl <= 0) {
          res.status(400).json({ message: "TTL expired. Unable to store key." });
          return;
      }
      const keyID = hashToID(key, node.m);
      const successor = await node.findSuccessor(key);
      if (successor.url === node.url) {
          node.kvStore.set(keyID, { originalKey: key, value })
          res.json({ message: `Key stored at node ${node.url}`, key, value });
      } else {
          try {
              const resp = await axios.post(`${successor.url}/put`, { key, value, ttl: ttl - 1 });
              res.json(resp.data);
          } catch (error: unknown) {
              let errorMessage = "Unknown error occurred";
              if (error instanceof Error) { errorMessage = error.message; }
              res.status(500).json({ message: "Failed to forward request to successor.",
                                     error: errorMessage });
          }
      }
  });
  \<close>
  The \<^verbatim>\<open>ttl\<close> of the request is any JSON value, or absent, in which case it is 10.  The
  handler applies two operations of the language to it, \<^verbatim>\<open>ttl <= 0\<close> and \<^verbatim>\<open>ttl - 1\<close>, the
  second written back as JSON into the forwarded request.  They are the arithmetic of
  JavaScript numbers (floating point, with the conversions of other values to numbers),
  which is not part of the repository: \<open>put\<close> takes them as its first argument.

  The result is the response sent, a status and a body, or the exception that leaves the
  handler when the lookup throws, in which case no response is sent.
\<close>

record numbers =
  le_zero :: "json \<Rightarrow> bool"
  minus_one :: "json \<Rightarrow> json"

definition put ::
  "numbers \<Rightarrow> digest \<Rightarrow> world \<Rightarrow> Node \<Rightarrow> string \<Rightarrow> string \<Rightarrow> json option \<Rightarrow> trace \<Rightarrow>
   ((error + nat \<times> body) \<times> Node \<times> trace) option" where
  "put js sha1 w node key val ttl_opt tr =
     (let ttl = (case ttl_opt of None \<Rightarrow> ''10'' | Some t \<Rightarrow> t)
      in if le_zero js ttl then Some (Inr (400, TTLExpired), node, tr)
         else
           (let keyID = hashToID sha1 key (node_m node)
            in case findSuccessor sha1 w node key tr of
                 None \<Rightarrow> None
               | Some (Inl e, tr1) \<Rightarrow> Some (Inl e, node, tr1)
               | Some (Inr succ, tr1) \<Rightarrow>
                   if entry_url succ = node_url node
                   then Some (Inr (200, KeyStored (node_url node) key val),
                              node\<lparr>kvStore := (kvStore node)(keyID \<mapsto> (key, val))\<rparr>, tr1)
                   else
                     (case put_reply w tr1 (entry_url succ) key val (minus_one js ttl) of
                        Inr data \<Rightarrow>
                          Some (Inr (200, data), node,
                                tr1 @ [PostPut (entry_url succ) key val (minus_one js ttl)])
                      | Inl error \<Rightarrow>
                          Some (Inr (500, ForwardFailed (message error)), node,
                                tr1 @ [PostPut (entry_url succ) key val (minus_one js ttl)]))))"

section \<open>The lookup as the specification words it\<close>

text \<open>
  The closest preceding node in the words of the specification: the finger-table entry with
  the highest index whose identifier lies in the interval from the node's identifier to the
  key, or the node itself if there is none.
\<close>

definition qualifies :: "Node \<Rightarrow> int \<Rightarrow> NodeEntry option \<Rightarrow> bool" where
  "qualifies cur key ft =
     (case ft of
        Some e \<Rightarrow> inInterval (entry_id e) (Big (node_id cur)) (Big key) (Big (ringSize cur))
      | None \<Rightarrow> False)"

definition spec_closestPrecedingNode :: "Node \<Rightarrow> int \<Rightarrow> NodeEntry" where
  "spec_closestPrecedingNode cur key =
     (case List.find (qualifies cur key) (rev (fingerTable cur)) of
        Some (Some e) \<Rightarrow> e
      | _ \<Rightarrow> \<lparr>entry_id = Big (node_id cur), entry_url = node_url cur\<rparr>)"

text \<open>
  The loop in the words of the specification, as a relation between the node a lookup
  starts from and the node it terminates on: stop when the key is in the interval from the
  current node to its successor; otherwise ask for the closest preceding node, stop if that
  candidate is the current node, that is, has the current node's identifier, and else
  fetch its state and continue from there.  A failed fetch ends the lookup with the error.
\<close>

inductive specLookup ::
  "digest \<Rightarrow> world \<Rightarrow> int \<Rightarrow> Node \<Rightarrow> trace \<Rightarrow> (error + Node) \<times> trace \<Rightarrow> bool"
  for sha1 :: digest and w :: world and key :: int where
  owner_found:
    "inInterval (Big key) (Big (node_id cur)) (entry_id (successor cur)) (Big (ringSize cur)) \<Longrightarrow>
     specLookup sha1 w key cur tr (Inr cur, tr)"
| no_progress:
    "\<not> inInterval (Big key) (Big (node_id cur)) (entry_id (successor cur)) (Big (ringSize cur)) \<Longrightarrow>
     idNumber (entry_id (spec_closestPrecedingNode cur key)) = Some (node_id cur) \<Longrightarrow>
     specLookup sha1 w key cur tr (Inr cur, tr)"
| fetch_failed:
    "\<not> inInterval (Big key) (Big (node_id cur)) (entry_id (successor cur)) (Big (ringSize cur)) \<Longrightarrow>
     idNumber (entry_id (spec_closestPrecedingNode cur key)) \<noteq> Some (node_id cur) \<Longrightarrow>
     fetchNodeInfo sha1 w (entry_url (spec_closestPrecedingNode cur key)) tr = (Inl e, tr') \<Longrightarrow>
     specLookup sha1 w key cur tr (Inl e, tr')"
| next_hop:
    "\<not> inInterval (Big key) (Big (node_id cur)) (entry_id (successor cur)) (Big (ringSize cur)) \<Longrightarrow>
     idNumber (entry_id (spec_closestPrecedingNode cur key)) \<noteq> Some (node_id cur) \<Longrightarrow>
     fetchNodeInfo sha1 w (entry_url (spec_closestPrecedingNode cur key)) tr = (Inr n, tr') \<Longrightarrow>
     specLookup sha1 w key n tr' r \<Longrightarrow>
     specLookup sha1 w key cur tr r"

text \<open>The result of the specification's \<^verbatim>\<open>findSuccessor\<close>: the successor field of that node.\<close>

definition spec_findSuccessor ::
  "digest \<Rightarrow> world \<Rightarrow> Node \<Rightarrow> string \<Rightarrow> trace \<Rightarrow> (error + NodeEntry) \<times> trace \<Rightarrow> bool" where
  "spec_findSuccessor sha1 w this keyStr tr res =
     (\<exists>r. specLookup sha1 w (hashToID sha1 keyStr (node_m this)) this tr (r, snd res) \<and>
          fst res = (case r of Inl e \<Rightarrow> Inl e | Inr n \<Rightarrow> Inr (successor n)))"

section \<open>Repeated stabilization\<close>


section \<open>A ring of the demonstration deployment\<close>

text \<open>
  The nodes of the README's deployment listen on \<^verbatim>\<open>http://localhost:3000\<close> and the ports
  after it, with \<^verbatim>\<open>m = 5\<close>.  \<open>sha1_table\<close> holds the SHA-1 digests of the strings the
  examples below hash, as any SHA-1 implementation prints them; no other string is hashed
  there.  With \<^verbatim>\<open>m = 5\<close> the identifier is the leading byte shifted right by three: 5 for
  port 3000, 31 for 3001, 11 for 3002, and 22 for both 3004 and 3005.
\<close>

definition url3000 :: string where "url3000 = ''http://localhost:3000''"
definition url3001 :: string where "url3001 = ''http://localhost:3001''"
definition url3002 :: string where "url3002 = ''http://localhost:3002''"
definition url3004 :: string where "url3004 = ''http://localhost:3004''"
definition url3005 :: string where "url3005 = ''http://localhost:3005''"

definition sha1_table :: digest where
  "sha1_table s =
     (if s = ''http://localhost:3000'' then
        [0x2B, 0xF0, 0xFA, 0x1D, 0x7D, 0xB9, 0xEC, 0xD6, 0x0B, 0x2C,
         0x43, 0x69, 0x78, 0x51, 0x3D, 0x3C, 0x1C, 0x55, 0x36, 0xA8]
      else if s = ''http://localhost:3001'' then
        [0xFD, 0x40, 0x9F, 0xB3, 0xBD, 0xD6, 0x3B, 0x16, 0x29, 0xDD,
         0x55, 0x2C, 0xB6, 0x14, 0x46, 0x4D, 0x69, 0x6E, 0x04, 0x79]
      else if s = ''http://localhost:3002'' then
        [0x5E, 0x06, 0xA8, 0x86, 0x51, 0xAD, 0x35, 0x59, 0xFB, 0x56,
         0xF0, 0xE9, 0x7E, 0xFE, 0x5A, 0x79, 0xEA, 0x77, 0x5B, 0x6E]
      else if s = ''http://localhost:3004'' then
        [0xB3, 0x6B, 0xBC, 0x06, 0xDD, 0x8A, 0xEA, 0x9B, 0x60, 0x60,
         0xA2, 0x5B, 0x6D, 0xEE, 0x5C, 0x99, 0x7C, 0x6E, 0xE7, 0xC0]
      else if s = ''http://localhost:3005'' then
        [0xB1, 0xF8, 0xF2, 0x81, 0xB5, 0xAD, 0xCE, 0x1C, 0xAC, 0x9A,
         0x45, 0x44, 0x0C, 0x42, 0x4C, 0x8D, 0xE6, 0x61, 0x32, 0x76]
      else if s = ''http://localhost:3000#finger6'' then
        [0xD9, 0x4E, 0x08, 0xB7, 0xD8, 0x88, 0x8F, 0x21, 0x0B, 0x2C,
         0x1F, 0xD3, 0x25, 0x3B, 0xFE, 0xC6, 0x93, 0x30, 0xF8, 0x4B]
      else if s = ''k'' then
        [0x13, 0xFB, 0xD7, 0x9C, 0x3D, 0x39, 0x0E, 0x5D, 0x65, 0x85,
         0xA2, 0x1E, 0x11, 0xFF, 0x5E, 0xC1, 0x97, 0x0C, 0xFF, 0x0C]
      else [])"

text \<open>
  The entries of these nodes as a response carries them, and as \<^verbatim>\<open>fetchNodeInfo\<close>, \<^verbatim>\<open>join\<close>
  and \<^verbatim>\<open>stabilize\<close> store them: the identifier is the string of its digits.
\<close>

definition wire3000 :: WireEntry where "wire3000 = \<lparr>wire_id = ''5'', wire_url = url3000\<rparr>"
definition wire3001 :: WireEntry where "wire3001 = \<lparr>wire_id = ''31'', wire_url = url3001\<rparr>"
definition wire3002 :: WireEntry where "wire3002 = \<lparr>wire_id = ''11'', wire_url = url3002\<rparr>"
definition wire3004 :: WireEntry where "wire3004 = \<lparr>wire_id = ''22'', wire_url = url3004\<rparr>"
definition wire3005 :: WireEntry where "wire3005 = \<lparr>wire_id = ''22'', wire_url = url3005\<rparr>"

definition entry3000 :: NodeEntry where "entry3000 = \<lparr>entry_id = Str ''5'', entry_url = url3000\<rparr>"
definition entry3001 :: NodeEntry where "entry3001 = \<lparr>entry_id = Str ''31'', entry_url = url3001\<rparr>"
definition entry3002 :: NodeEntry where "entry3002 = \<lparr>entry_id = Str ''11'', entry_url = url3002\<rparr>"
definition entry3004 :: NodeEntry where "entry3004 = \<lparr>entry_id = Str ''22'', entry_url = url3004\<rparr>"
definition entry3005 :: NodeEntry where "entry3005 = \<lparr>entry_id = Str ''22'', entry_url = url3005\<rparr>"

text \<open>
  Three nodes, 3000, 3002 and 3001 in ring order (identifiers 5, 11, 31), fully stabilized:
  every successor and predecessor is the neighbour on the ring, and slot \<open>i\<close> of every
  finger table is the first node at or after identifier \<open>+ 2 ^ i\<close>.  \<open>info3000\<close> is what
  node 3000 answers to \<^verbatim>\<open>GET /info\<close>, \<open>snap3000\<close> the object \<^verbatim>\<open>fetchNodeInfo\<close> builds from
  it, and \<open>node3000\<close> the node itself, whose predecessor is the entry its \<^verbatim>\<open>/notify\<close>
  handler made, with a \<^verbatim>\<open>bigint\<close> for its identifier.
\<close>

definition info3000 :: NodeInfo where
  "info3000 =
     \<lparr>info_url = url3000, info_m = 5, info_predecessor = Some wire3001,
      info_successor = wire3002,
      info_fingerTable =
        [Some wire3002, Some wire3002, Some wire3002, Some wire3001, Some wire3001],
      info_stabilizeInterval = 1000\<rparr>"

definition info3002 :: NodeInfo where
  "info3002 =
     \<lparr>info_url = url3002, info_m = 5, info_predecessor = Some wire3000,
      info_successor = wire3001,
      info_fingerTable =
        [Some wire3001, Some wire3001, Some wire3001, Some wire3001, Some wire3001],
      info_stabilizeInterval = 1000\<rparr>"

definition info3001 :: NodeInfo where
  "info3001 =
     \<lparr>info_url = url3001, info_m = 5, info_predecessor = Some wire3002,
      info_successor = wire3000,
      info_fingerTable =
        [Some wire3000, Some wire3000, Some wire3000, Some wire3002, Some wire3001],
      info_stabilizeInterval = 1000\<rparr>"

definition snap3000 :: Node where "snap3000 = nodeOfInfo sha1_table info3000"
definition snap3001 :: Node where "snap3001 = nodeOfInfo sha1_table info3001"
definition snap3002 :: Node where "snap3002 = nodeOfInfo sha1_table info3002"

definition node3000 :: Node where
  "node3000 = snap3000\<lparr>predecessor := Some \<lparr>entry_id = Big 31, entry_url = url3001\<rparr>\<rparr>"

definition node3001 :: Node where
  "node3001 = snap3001\<lparr>predecessor := Some \<lparr>entry_id = Big 11, entry_url = url3002\<rparr>\<rparr>"

definition node3002 :: Node where
  "node3002 = snap3002\<lparr>predecessor := Some \<lparr>entry_id = Big 5, entry_url = url3000\<rparr>\<rparr>"

text \<open>
  The two operations on a \<^verbatim>\<open>ttl\<close> for the texts of integers of magnitude below \<open>2 ^ 53\<close>,
  where the arithmetic of JavaScript numbers is that of the integers.  The examples apply
  them to 0, 1 and 10 only.
\<close>

definition hopCounts :: numbers where
  "hopCounts =
     \<lparr>le_zero = (\<lambda>t. case StringToBigInt t of Some n \<Rightarrow> n \<le> 0 | None \<Rightarrow> False),
      minus_one = (\<lambda>t. case StringToBigInt t of Some n \<Rightarrow> toString (n - 1) | None \<Rightarrow> ''null'')\<rparr>"

text \<open>
  The network of these three nodes; no other address answers.  A forwarded put is answered
  as the handler of the owner answers it: status 400 when the \<^verbatim>\<open>ttl\<close> is used up, which
  \<^verbatim>\<open>axios\<close> throws as an error, and else the confirmation that the key is stored.
\<close>

definition ring3 :: world where
  "ring3 =
     \<lparr>info_reply = (\<lambda>tr u.
          if u = url3000 then Inr info3000
          else if u = url3001 then Inr info3001
          else if u = url3002 then Inr info3002
          else Inl (AxiosError ''connect ECONNREFUSED'')),
      notify_reply = (\<lambda>tr u i v. Inr ()),
      put_reply = (\<lambda>tr u k v t.
          if le_zero hopCounts t then Inl (AxiosStatus 400 TTLExpired)
          else Inr (KeyStored u k v))\<rparr>"

text \<open>A network in which no address answers.\<close>

definition unreachable :: world where
  "unreachable =
     \<lparr>info_reply = (\<lambda>tr u. Inl (AxiosError ''connect ECONNREFUSED'')),
      notify_reply = (\<lambda>tr u i v. Inl (AxiosError ''connect ECONNREFUSED'')),
      put_reply = (\<lambda>tr u k v t. Inl (AxiosError ''connect ECONNREFUSED''))\<rparr>"




text \<open>
  Node 3000 alone, as \<^verbatim>\<open>join(null)\<close> leaves a fresh node, and the network in which it is
  the only node.
\<close>

definition solo3000 :: Node where
  "solo3000 =
     (new_Node sha1_table url3000 5 1000)
       \<lparr>predecessor := Some \<lparr>entry_id = Big 5, entry_url = url3000\<rparr>,
        successor := \<lparr>entry_id = Big 5, entry_url = url3000\<rparr>,
        fingerTable := [Some \<lparr>entry_id = Big 5, entry_url = url3000\<rparr>, None, None, None, None]\<rparr>"

definition alone :: world where
  "alone =
     \<lparr>info_reply = (\<lambda>tr u.
          if u = url3000 then
            Inr \<lparr>info_url = url3000, info_m = 5, info_predecessor = Some wire3000,
                 info_successor = wire3000,
                 info_fingerTable = [Some wire3000, None, None, None, None],
                 info_stabilizeInterval = 1000\<rparr>
          else Inl (AxiosError ''connect ECONNREFUSED'')),
      notify_reply = (\<lambda>tr u i v. Inr ()),
      put_reply = (\<lambda>tr u k v t. Inr (KeyStored u k v))\<rparr>"

section \<open>Properties of the identifier space\<close>

lemma bytes_fold_bounds:
  "0 \<le> acc \<Longrightarrow> acc < 2 ^ k \<Longrightarrow>
   0 \<le> foldl (\<lambda>id b. push_bit 8 id + uint b) (acc::int) (bs :: 8 word list) \<and>
   foldl (\<lambda>id b. push_bit 8 id + uint b) acc bs < 2 ^ (k + 8 * length bs)"
proof (induction bs arbitrary: acc k)
  case Nil
  then show ?case by simp
next
  case (Cons b bs)
  have b0: "0 \<le> uint b" by simp
  have b1: "uint b < 2 ^ 8" using uint_bounded [of b] by simp
  have lo: "0 \<le> push_bit 8 acc + uint b"
    using Cons.prems(1) b0 by (simp add: push_bit_eq_mult)
  have "acc + 1 \<le> 2 ^ k" using Cons.prems(2) by simp
  then have "(acc + 1) * 2 ^ 8 \<le> 2 ^ k * (2 ^ 8 :: int)"
    by (rule mult_right_mono) simp
  then have hi: "push_bit 8 acc + uint b < 2 ^ (k + 8)"
    using b1 by (simp add: push_bit_eq_mult power_add algebra_simps)
  from Cons.IH [OF lo hi] show ?case
    by (simp add: add.assoc add.commute add.left_commute)
qed

lemma int_div_less_bound:
  assumes b: "0 < (b::int)" and v: "v < a * b"
  shows "v div b < a"
proof (rule ccontr)
  assume "\<not> v div b < a"
  then have "a \<le> v div b" by simp
  then have "a * b \<le> v div b * b" using b by (simp add: mult_right_mono)
  moreover have "v div b * b + v mod b = v" by simp
  moreover have "0 \<le> v mod b" using b by simp
  ultimately show False using v by linarith
qed

lemma hashToID_bounds: "0 \<le> hashToID sha1 s m \<and> hashToID sha1 s m < 2 ^ m"
proof -
  define bn where "bn = (m + 7) div 8"
  define sliced where "sliced = take bn (sha1 s)"
  define v where "v = foldl (\<lambda>id b. push_bit 8 id + uint b) (0::int) sliced"
  define e where "e = 8 * bn - m"
  have len: "length sliced \<le> bn" by (simp add: sliced_def)
  have "0 \<le> v \<and> v < 2 ^ (0 + 8 * length sliced)"
    unfolding v_def by (rule bytes_fold_bounds) simp_all
  then have v0: "0 \<le> v" and v1: "v < 2 ^ (8 * length sliced)" by simp_all
  have "(2::int) ^ (8 * length sliced) \<le> 2 ^ (8 * bn)"
    using len by (intro power_increasing) simp_all
  with v1 have v2: "v < 2 ^ (8 * bn)" by linarith
  have ge: "m \<le> 8 * bn" unfolding bn_def by arith
  then have eq: "8 * bn = m + e" by (simp add: e_def)
  have ex: "int (bn * 8) - int m = int e" using ge by (simp add: e_def)
  have h: "hashToID sha1 s m = (if 0 < e then drop_bit e v else v)"
    unfolding hashToID_def Let_def bn_def [symmetric] sliced_def [symmetric] v_def [symmetric] ex
    by simp
  show ?thesis
  proof (cases "e = 0")
    case True
    with h eq v0 v2 show ?thesis by simp
  next
    case False
    have "v < 2 ^ m * 2 ^ e" using v2 eq by (simp add: power_add)
    then have "v div 2 ^ e < 2 ^ m"
      by (intro int_div_less_bound) simp_all
    moreover have "0 \<le> v div 2 ^ e" using v0 by (simp add: pos_imp_zdiv_nonneg_iff)
    ultimately show ?thesis using h False by (simp add: drop_bit_eq_div)
  qed
qed

lemma hashToID_prefix:
  "take ((m + 7) div 8) (sha1' s') = take ((m + 7) div 8) (sha1 s) \<Longrightarrow>
   hashToID sha1' s' m = hashToID sha1 s m"
  by (simp add: hashToID_def Let_def)

text \<open>
  Claim C8.  For every string \<open>s\<close> and every ring width \<open>m \<ge> 1\<close> the identifier
  \<open>hashToID s m\<close> lies in \<open>[0, 2 ^ m)\<close>.  It is deterministic: \<open>hashToID\<close> reads no state
  of the node, and its value is fixed by \<open>m\<close> and the leading \<open>\<lceil>m / 8\<rceil>\<close> bytes of the
  digest of \<open>s\<close>, so the same string and the same \<open>m\<close> give the same identifier at every
  call and on every node.
\<close>

theorem hashToID_deterministic_in_range:
  assumes "1 \<le> m"
  shows "0 \<le> hashToID sha1 s m \<and> hashToID sha1 s m < 2 ^ m \<and>
         (\<forall>sha1' s'. take ((m + 7) div 8) (sha1' s') = take ((m + 7) div 8) (sha1 s) \<longrightarrow>
                      hashToID sha1' s' m = hashToID sha1 s m)"
  using hashToID_bounds [of sha1 s m] hashToID_prefix [of m _ _ sha1 s] by blast

theorem hashToID_deterministic_in_range_witness:
  "(1::nat) \<le> 5 \<and> hashToID sha1_table ''http://localhost:3000'' 5 = 5 \<and>
   0 \<le> hashToID sha1_table ''http://localhost:3000'' 5 \<and>
   hashToID sha1_table ''http://localhost:3000'' 5 < 2 ^ 5 \<and>
   hashToID sha1_table ''http://localhost:3004'' 5 = hashToID sha1_table ''http://localhost:3005'' 5"
  using hashToID_deterministic_in_range [of 5 sha1_table "''http://localhost:3000''"]
  by (simp add: hashToID_def sha1_table_def Let_def drop_bit_eq_div)

subsection \<open>The relational operators\<close>

lemma js_big_big [simp]:
  "js_less (Big a) (Big b) \<longleftrightarrow> a < b" "js_greater (Big a) (Big b) \<longleftrightarrow> b < a"
  "js_less_eq (Big a) (Big b) \<longleftrightarrow> a \<le> b" "js_greater_eq (Big a) (Big b) \<longleftrightarrow> b \<le> a"
  by (auto simp add: js_less_def js_greater_def js_less_eq_def js_greater_eq_def)

lemma js_big_id:
  assumes "idNumber e = Some n"
  shows "js_less (Big a) e \<longleftrightarrow> a < n" "js_greater (Big a) e \<longleftrightarrow> n < a"
    "js_less_eq (Big a) e \<longleftrightarrow> a \<le> n" "js_greater_eq (Big a) e \<longleftrightarrow> n \<le> a"
    "js_less e (Big a) \<longleftrightarrow> n < a" "js_greater e (Big a) \<longleftrightarrow> a < n"
    "js_less_eq e (Big a) \<longleftrightarrow> n \<le> a" "js_greater_eq e (Big a) \<longleftrightarrow> a \<le> n"
  using assms
  by (cases e; auto simp add: js_less_def js_greater_def js_less_eq_def js_greater_eq_def)+

lemma stringLess_irrefl [simp]: "\<not> stringLess s s"
  by (induction s) simp_all

lemma js_str_str [simp]:
  "js_less (Str a) (Str b) \<longleftrightarrow> stringLess a b" "js_greater (Str a) (Str b) \<longleftrightarrow> stringLess b a"
  "js_less_eq (Str a) (Str b) \<longleftrightarrow> \<not> stringLess b a"
  "js_greater_eq (Str a) (Str b) \<longleftrightarrow> \<not> stringLess a b"
  by (auto simp add: js_less_def js_greater_def js_less_eq_def js_greater_eq_def)

lemma inInterval_big:
  "inInterval (Big key) (Big start) (Big end) (Big R) \<longleftrightarrow>
     (if start < end then start < key \<and> key \<le> end
      else (start < key \<and> key < R) \<or> (0 \<le> key \<and> key \<le> end))"
  by (simp add: inInterval_def)

text \<open>
  Claim C1.  For a key of the ring, \<open>0 \<le> key < ringSize\<close>, and \<^verbatim>\<open>bigint\<close> arguments as the
  signature declares them: when \<open>start < end\<close>, \<open>inInterval key start end ringSize\<close> is
  true iff \<open>start < key \<le> end\<close>; when \<open>start \<ge> end\<close> it is true iff \<open>key > start\<close> or
  \<open>key \<le> end\<close>.  For a ring of size 32: 20 is in the interval from 10 to 25, 25 is not in
  the interval from 25 to 5, 30 is, and 5 is not in the interval from 10 to 25.
\<close>

theorem inInterval_half_open_clockwise:
  assumes "0 \<le> key" and "key < R"
  shows "(start < end \<longrightarrow>
            inInterval (Big key) (Big start) (Big end) (Big R) = (start < key \<and> key \<le> end)) \<and>
         (start \<ge> end \<longrightarrow>
            inInterval (Big key) (Big start) (Big end) (Big R) = (key > start \<or> key \<le> end)) \<and>
         inInterval (Big 20) (Big 10) (Big 25) (Big 32) \<and>
         \<not> inInterval (Big 25) (Big 25) (Big 5) (Big 32) \<and>
         inInterval (Big 30) (Big 25) (Big 5) (Big 32) \<and>
         \<not> inInterval (Big 5) (Big 10) (Big 25) (Big 32)"
  using assms by (auto simp add: inInterval_big)

theorem inInterval_half_open_clockwise_witness:
  "(0::int) \<le> 30 \<and> (30::int) < 32 \<and> (25::int) \<ge> 5 \<and>
   inInterval (Big 30) (Big 25) (Big 5) (Big 32) = ((30::int) > 25 \<or> (30::int) \<le> 5) \<and>
   (0::int) \<le> 20 \<and> (20::int) < 32 \<and> (10::int) < 25 \<and>
   inInterval (Big 20) (Big 10) (Big 25) (Big 32) = ((10::int) < 20 \<and> (20::int) \<le> 25)"
  using inInterval_half_open_clockwise [of 30 32 25 5] inInterval_half_open_clockwise [of 20 32 10 25]
  by simp

section \<open>Evaluation of the demonstration ring\<close>

lemmas urls = url3000_def url3001_def url3002_def url3004_def url3005_def
lemmas entries = entry3000_def entry3001_def entry3002_def entry3004_def entry3005_def
lemmas wires = wire3000_def wire3001_def wire3002_def wire3004_def wire3005_def

lemma hash_values:
  "hashToID sha1_table url3000 5 = 5" "hashToID sha1_table url3001 5 = 31"
  "hashToID sha1_table url3002 5 = 11" "hashToID sha1_table url3004 5 = 22"
  "hashToID sha1_table url3005 5 = 22"
  "hashToID sha1_table ''http://localhost:3000#finger6'' 5 = 27"
  "hashToID sha1_table ''k'' 5 = 2"
  by (simp_all add: hashToID_def sha1_table_def urls Let_def drop_bit_eq_div)

lemma string_values:
  "StringToBigInt ''5'' = Some 5" "StringToBigInt ''11'' = Some 11"
  "StringToBigInt ''31'' = Some 31" "StringToBigInt ''22'' = Some 22"
  "StringToBigInt ''0'' = Some 0" "StringToBigInt ''1'' = Some 1"
  "StringToBigInt ''10'' = Some 10"
  by (simp_all add: StringToBigInt_def trimString_def isStrWhiteSpace_def parseRadix_def
      digitValue_def)

lemma fromWire_entries:
  "fromWire wire3000 = entry3000" "fromWire wire3001 = entry3001" "fromWire wire3002 = entry3002"
  "fromWire wire3004 = entry3004" "fromWire wire3005 = entry3005"
  by (simp_all add: fromWire_def wires entries)

lemma entry_numbers:
  "idNumber (entry_id entry3000) = Some 5" "idNumber (entry_id entry3001) = Some 31"
  "idNumber (entry_id entry3002) = Some 11" "idNumber (entry_id entry3004) = Some 22"
  "idNumber (entry_id entry3005) = Some 22"
  by (simp_all add: entries string_values)

lemma entry_urls:
  "entry_url entry3000 = url3000" "entry_url entry3001 = url3001" "entry_url entry3002 = url3002"
  "entry_url entry3004 = url3004" "entry_url entry3005 = url3005"
  by (simp_all add: entries)

lemma entry_not_big:
  "entry_id entry3000 \<noteq> Big n" "entry_id entry3001 \<noteq> Big n" "entry_id entry3002 \<noteq> Big n"
  "entry_id entry3004 \<noteq> Big n" "entry_id entry3005 \<noteq> Big n"
  by (simp_all add: entries)

lemma snap3000_fields:
  "node_id snap3000 = 5" "node_url snap3000 = url3000" "node_m snap3000 = 5"
  "ringSize snap3000 = 32" "successor snap3000 = entry3002"
  "predecessor snap3000 = Some entry3001"
  "fingerTable snap3000 =
     [Some entry3002, Some entry3002, Some entry3002, Some entry3001, Some entry3001]"
  by (simp_all add: snap3000_def nodeOfInfo_def new_Node_def info3000_def hash_values
      fromWire_entries)

lemma snap3001_fields:
  "node_id snap3001 = 31" "node_url snap3001 = url3001" "node_m snap3001 = 5"
  "ringSize snap3001 = 32" "successor snap3001 = entry3000"
  "predecessor snap3001 = Some entry3002"
  "fingerTable snap3001 =
     [Some entry3000, Some entry3000, Some entry3000, Some entry3002, Some entry3001]"
  by (simp_all add: snap3001_def nodeOfInfo_def new_Node_def info3001_def hash_values
      fromWire_entries)

lemma snap3002_fields:
  "node_id snap3002 = 11" "node_url snap3002 = url3002" "node_m snap3002 = 5"
  "ringSize snap3002 = 32" "successor snap3002 = entry3001"
  "predecessor snap3002 = Some entry3000"
  "fingerTable snap3002 =
     [Some entry3001, Some entry3001, Some entry3001, Some entry3001, Some entry3001]"
  by (simp_all add: snap3002_def nodeOfInfo_def new_Node_def info3002_def hash_values
      fromWire_entries)

lemma node3000_fields:
  "node_id node3000 = 5" "node_url node3000 = url3000" "node_m node3000 = 5"
  "ringSize node3000 = 32" "successor node3000 = entry3002"
  "predecessor node3000 = Some \<lparr>entry_id = Big 31, entry_url = url3001\<rparr>"
  "fingerTable node3000 =
     [Some entry3002, Some entry3002, Some entry3002, Some entry3001, Some entry3001]"
  by (simp_all add: node3000_def snap3000_fields)

lemma node3001_fields:
  "node_id node3001 = 31" "node_url node3001 = url3001" "node_m node3001 = 5"
  "ringSize node3001 = 32" "successor node3001 = entry3000"
  "predecessor node3001 = Some \<lparr>entry_id = Big 11, entry_url = url3002\<rparr>"
  "fingerTable node3001 =
     [Some entry3000, Some entry3000, Some entry3000, Some entry3002, Some entry3001]"
  by (simp_all add: node3001_def snap3001_fields)

lemma node3002_fields:
  "node_id node3002 = 11" "node_url node3002 = url3002" "node_m node3002 = 5"
  "ringSize node3002 = 32" "successor node3002 = entry3001"
  "predecessor node3002 = Some \<lparr>entry_id = Big 5, entry_url = url3000\<rparr>"
  "fingerTable node3002 =
     [Some entry3001, Some entry3001, Some entry3001, Some entry3001, Some entry3001]"
  by (simp_all add: node3002_def snap3002_fields)

lemma ring3_fetch:
  "fetchNodeInfo sha1_table ring3 url3000 tr = (Inr snap3000, tr @ [GetInfo url3000])"
  "fetchNodeInfo sha1_table ring3 url3001 tr = (Inr snap3001, tr @ [GetInfo url3001])"
  "fetchNodeInfo sha1_table ring3 url3002 tr = (Inr snap3002, tr @ [GetInfo url3002])"
  by (simp_all add: fetchNodeInfo_def ring3_def snap3000_def snap3001_def snap3002_def urls)

text \<open>The responses of the three nodes are those their \<^verbatim>\<open>/info\<close> handlers send.\<close>

lemma ring3_publishes:
  "infoHandler node3000 = info3000" "infoHandler node3001 = info3001"
  "infoHandler node3002 = info3002"
  by (simp_all add: infoHandler_def stringifyBigInt_def node3000_def node3001_def node3002_def
      snap3000_def snap3001_def snap3002_def nodeOfInfo_def new_Node_def fromWire_def
      info3000_def info3001_def info3002_def wires toString_def decimal.simps)

text \<open>The interval test on the entries of the ring, whose identifiers are strings.\<close>

lemma inInterval_big_id:
  assumes "idNumber e = Some n"
  shows "inInterval (Big key) (Big start) e (Big R) \<longleftrightarrow>
           (if start < n then start < key \<and> key \<le> n
            else (start < key \<and> key < R) \<or> (0 \<le> key \<and> key \<le> n))"
    and "inInterval e (Big start) (Big end) (Big R) \<longleftrightarrow>
           (if start < end then start < n \<and> n \<le> end
            else (start < n \<and> n < R) \<or> (0 \<le> n \<and> n \<le> end))"
  by (simp_all add: inInterval_def js_big_id [OF assms])

section \<open>Properties of the lookup\<close>

lemma lookupLoop_owner_found:
  "inInterval (Big key) (Big (node_id cur)) (entry_id (successor cur)) (Big (ringSize cur)) \<Longrightarrow>
   lookupLoop sha1 w key cur tr = Some (Inr cur, tr)"
  by (subst lookupLoop.simps) simp

text \<open>
  Claim C10.  For every start value \<open>s\<close> and every key in \<open>[0, ringSize)\<close>,
  \<open>inInterval key s s ringSize\<close> is true, the key \<open>s\<close> included.  So on a node whose
  successor's identifier is the node's own (as a \<^verbatim>\<open>bigint\<close> or as the string of it) and whose
  ring size is \<open>2 ^ m\<close>, as the constructor sets it, the interval test of \<open>findSuccessor\<close>
  succeeds at once for every key string: the lookup returns the node's successor and the
  trace is as it was, no peer having been contacted.
\<close>

theorem degenerate_interval_solo_lookup:
  "(0 \<le> key \<and> key < R \<longrightarrow> inInterval (Big key) (Big s) (Big s) (Big R)) \<and>
   (ringSize this = 2 ^ node_m this \<and> idNumber (entry_id (successor this)) = Some (node_id this) \<longrightarrow>
      findSuccessor sha1 w this keyStr tr = Some (Inr (successor this), tr))"
proof (intro conjI impI)
  assume "0 \<le> key \<and> key < R"
  then show "inInterval (Big key) (Big s) (Big s) (Big R)" by (auto simp add: inInterval_big)
next
  assume a: "ringSize this = 2 ^ node_m this \<and>
    idNumber (entry_id (successor this)) = Some (node_id this)"
  let ?key = "hashToID sha1 keyStr (node_m this)"
  have "0 \<le> ?key \<and> ?key < ringSize this"
    using hashToID_bounds [of sha1 keyStr "node_m this"] a by simp
  then have "inInterval (Big ?key) (Big (node_id this)) (entry_id (successor this))
      (Big (ringSize this))"
    using a by (auto simp add: inInterval_big_id(1) [of _ "node_id this"])
  then have "lookupLoop sha1 w ?key this tr = Some (Inr this, tr)"
    by (rule lookupLoop_owner_found)
  then show "findSuccessor sha1 w this keyStr tr = Some (Inr (successor this), tr)"
    by (simp add: findSuccessor_def Let_def)
qed

theorem degenerate_interval_solo_lookup_witness:
  "(0::int) \<le> 25 \<and> (25::int) < 32 \<and> inInterval (Big 25) (Big 25) (Big 25) (Big 32) \<and>
   ringSize (new_Node sha1_table url3000 5 1000) = 2 ^ node_m (new_Node sha1_table url3000 5 1000) \<and>
   idNumber (entry_id (successor (new_Node sha1_table url3000 5 1000))) =
     Some (node_id (new_Node sha1_table url3000 5 1000)) \<and>
   findSuccessor sha1_table unreachable (new_Node sha1_table url3000 5 1000) ''k'' [] =
     Some (Inr (successor (new_Node sha1_table url3000 5 1000)), [])"
  using degenerate_interval_solo_lookup
    [of 25 32 25 "new_Node sha1_table url3000 5 1000" sha1_table unreachable "''k''" "[]"]
  by (simp add: new_Node_def)

subsection \<open>The closest preceding node\<close>

lemma scanFingers_find:
  "k \<le> length (fingerTable cur) \<Longrightarrow>
   scanFingers cur key k =
     (case List.find (qualifies cur key) (rev (take k (fingerTable cur))) of
        Some (Some e) \<Rightarrow> e | _ \<Rightarrow> \<lparr>entry_id = Big (node_id cur), entry_url = node_url cur\<rparr>)"
proof (induction k)
  case 0
  then show ?case by simp
next
  case (Suc k)
  then have k: "k < length (fingerTable cur)" by simp
  then have t: "take (Suc k) (fingerTable cur) = take k (fingerTable cur) @ [fingerTable cur ! k]"
    by (simp add: take_Suc_conv_app_nth)
  show ?case using Suc.IH k
    by (simp add: t qualifies_def split: option.splits)
qed

text \<open>
  The first half of claim C2 holds: \<open>closestPrecedingNode\<close> returns the finger-table entry
  of highest index whose identifier passes the interval test, or the node itself.
\<close>

lemma closestPrecedingNode_spec:
  "closestPrecedingNode cur key = spec_closestPrecedingNode cur key"
  by (simp add: closestPrecedingNode_def spec_closestPrecedingNode_def scanFingers_find)

lemma cpn_3000_31: "closestPrecedingNode node3000 31 = entry3001"
  by (simp add: closestPrecedingNode_def node3000_fields
      inInterval_big_id(2) [OF entry_numbers(2)] inInterval_big_id(2) [OF entry_numbers(3)])

lemma cpn_snap3001_31: "closestPrecedingNode snap3001 31 = entry3001"
  by (simp add: closestPrecedingNode_def snap3001_fields
      inInterval_big_id(2) [OF entry_numbers(2)])

lemma out_3000_31:
  "\<not> inInterval (Big 31) (Big (node_id node3000)) (entry_id (successor node3000))
       (Big (ringSize node3000))"
  by (simp add: node3000_fields inInterval_big_id(1) [OF entry_numbers(3)])

lemma out_snap3001_31:
  "\<not> inInterval (Big 31) (Big (node_id snap3001)) (entry_id (successor snap3001))
       (Big (ringSize snap3001))"
  by (simp add: snap3001_fields inInterval_big_id(1) [OF entry_numbers(1)])

lemma lookup_31_refetch:
  "lookupLoop sha1 w key cur tr = Some y \<Longrightarrow>
   \<not> (sha1 = sha1_table \<and> w = ring3 \<and> key = 31 \<and> cur = snap3001)"
proof (induction rule: lookupLoop.raw_induct [rotated 1, consumes 1])
  case (1 f sha1 w key cur tr y)
  note ih = 1(1) and body = 1(2)
  show ?case
  proof
    assume a: "sha1 = sha1_table \<and> w = ring3 \<and> key = 31 \<and> cur = snap3001"
    with body out_snap3001_31
    have "f sha1_table ring3 31 snap3001 (tr @ [GetInfo url3001]) = Some y"
      by (simp add: cpn_snap3001_31 entry_urls entry_not_big ring3_fetch)
    from ih [OF this] show False by simp
  qed
qed

lemma lookup_31_from_3000: "lookupLoop sha1_table ring3 31 node3000 [] = None"
proof -
  have "lookupLoop sha1_table ring3 31 node3000 [] =
      lookupLoop sha1_table ring3 31 snap3001 [GetInfo url3001]"
    using out_3000_31
    by (subst lookupLoop.simps) (simp add: cpn_3000_31 entry_urls entry_not_big ring3_fetch)
  moreover have "lookupLoop sha1_table ring3 31 snap3001 [GetInfo url3001] = None"
    using lookup_31_refetch [of sha1_table ring3 31 snap3001 "[GetInfo url3001]"]
    by (cases "lookupLoop sha1_table ring3 31 snap3001 [GetInfo url3001]") auto
  ultimately show ?thesis by simp
qed

lemma spec_lookup_31_from_3000:
  "specLookup sha1_table ring3 31 node3000 [] (Inr snap3001, [GetInfo url3001])"
proof -
  have stop: "specLookup sha1_table ring3 31 snap3001 [GetInfo url3001]
      (Inr snap3001, [GetInfo url3001])"
    using out_snap3001_31
    by (rule specLookup.no_progress)
       (simp add: closestPrecedingNode_spec [symmetric] cpn_snap3001_31 entry_numbers
          snap3001_fields)
  show ?thesis
    using out_3000_31
  proof (rule specLookup.next_hop)
    show "idNumber (entry_id (spec_closestPrecedingNode node3000 31)) \<noteq> Some (node_id node3000)"
      by (simp add: closestPrecedingNode_spec [symmetric] cpn_3000_31 entry_numbers
          node3000_fields)
    show "fetchNodeInfo sha1_table ring3 (entry_url (spec_closestPrecedingNode node3000 31)) [] =
        (Inr snap3001, [GetInfo url3001])"
      by (simp add: closestPrecedingNode_spec [symmetric] cpn_3000_31 entry_urls ring3_fetch)
    show "specLookup sha1_table ring3 31 snap3001 [GetInfo url3001]
        (Inr snap3001, [GetInfo url3001])"
      by (rule stop)
  qed
qed

text \<open>
  Claim C2 at a failing input.  In the ring above, \<open>findSuccessor\<close> is run on node 3000 with
  the key \<^verbatim>\<open>http://localhost:3001\<close>, whose identifier is 31.  The key is not in the interval
  from 5 to 11, the closest preceding node is 3001, and its state is fetched.  There the key
  is not in the interval from 31 to 5, and the closest preceding node is the finger that
  holds node 3001 itself: the candidate is the current node, and the specification's loop
  stops and returns the successor of 3001, node 3000.  The code compares the candidate's
  \<^verbatim>\<open>id\<close>, the string \<^verbatim>\<open>"31"\<close> of the response, with the current node's \<^verbatim>\<open>id\<close>, the \<^verbatim>\<open>bigint\<close> 31,
  by \<^verbatim>\<open>===\<close>, which is false for a string and a \<^verbatim>\<open>bigint\<close>: it fetches node 3001 again, and
  again, and \<open>findSuccessor\<close> has no value.
\<close>

theorem findSuccessor_refetches_current_node:
  "closestPrecedingNode snap3001 31 = entry3001 \<and>
   idNumber (entry_id entry3001) = Some (node_id snap3001) \<and>
   entry_id entry3001 \<noteq> Big (node_id snap3001) \<and>
   spec_findSuccessor sha1_table ring3 node3000 url3001 [] (Inr entry3000, [GetInfo url3001]) \<and>
   findSuccessor sha1_table ring3 node3000 url3001 [] = None"
proof -
  have "spec_findSuccessor sha1_table ring3 node3000 url3001 [] (Inr entry3000, [GetInfo url3001])"
    unfolding spec_findSuccessor_def
    using spec_lookup_31_from_3000
    by (intro exI [of _ "Inr snap3001"]) (simp add: node3000_fields hash_values snap3001_fields)
  moreover have "findSuccessor sha1_table ring3 node3000 url3001 [] = None"
    by (simp add: findSuccessor_def node3000_fields hash_values lookup_31_from_3000)
  ultimately show ?thesis
    by (simp add: cpn_snap3001_31 entry_numbers entry_not_big snap3001_fields)
qed

subsection \<open>Termination\<close>

lemma cpn_3001_11: "closestPrecedingNode node3001 11 = entry3002"
  by (simp add: closestPrecedingNode_def node3001_fields
      inInterval_big_id(2) [OF entry_numbers(2)] inInterval_big_id(2) [OF entry_numbers(3)])

lemma cpn_snap3001_11: "closestPrecedingNode snap3001 11 = entry3002"
  by (simp add: closestPrecedingNode_def snap3001_fields
      inInterval_big_id(2) [OF entry_numbers(2)] inInterval_big_id(2) [OF entry_numbers(3)])

lemma cpn_snap3002_11: "closestPrecedingNode snap3002 11 = entry3001"
  by (simp add: closestPrecedingNode_def snap3002_fields
      inInterval_big_id(2) [OF entry_numbers(2)])

lemma out_11:
  "\<not> inInterval (Big 11) (Big (node_id node3001)) (entry_id (successor node3001))
       (Big (ringSize node3001))"
  "\<not> inInterval (Big 11) (Big (node_id snap3001)) (entry_id (successor snap3001))
       (Big (ringSize snap3001))"
  "\<not> inInterval (Big 11) (Big (node_id snap3002)) (entry_id (successor snap3002))
       (Big (ringSize snap3002))"
  by (simp_all add: node3001_fields snap3001_fields snap3002_fields
      inInterval_big_id(1) [OF entry_numbers(1)] inInterval_big_id(1) [OF entry_numbers(2)])

lemma lookup_11_cycle:
  "lookupLoop sha1 w key cur tr = Some y \<Longrightarrow>
   \<not> (sha1 = sha1_table \<and> w = ring3 \<and> key = 11 \<and>
      (cur = node3001 \<or> cur = snap3001 \<or> cur = snap3002))"
proof (induction rule: lookupLoop.raw_induct [rotated 1, consumes 1])
  case (1 f sha1 w key cur tr y)
  note ih = 1(1) and body = 1(2)
  show ?case
  proof
    assume a: "sha1 = sha1_table \<and> w = ring3 \<and> key = 11 \<and>
      (cur = node3001 \<or> cur = snap3001 \<or> cur = snap3002)"
    then consider (local) "cur = node3001" | (at3001) "cur = snap3001" | (at3002) "cur = snap3002"
      by blast
    then show False
    proof cases
      case local
      with a body out_11(1)
      have "f sha1_table ring3 11 snap3002 (tr @ [GetInfo url3002]) = Some y"
        by (simp add: cpn_3001_11 entry_urls entry_not_big ring3_fetch)
      from ih [OF this] show False by simp
    next
      case at3001
      with a body out_11(2)
      have "f sha1_table ring3 11 snap3002 (tr @ [GetInfo url3002]) = Some y"
        by (simp add: cpn_snap3001_11 entry_urls entry_not_big ring3_fetch)
      from ih [OF this] show False by simp
    next
      case at3002
      with a body out_11(3)
      have "f sha1_table ring3 11 snap3001 (tr @ [GetInfo url3001]) = Some y"
        by (simp add: cpn_snap3002_11 entry_urls entry_not_big ring3_fetch)
      from ih [OF this] show False by simp
    qed
  qed
qed

text \<open>
  Claim C6 at a failing input.  In the stabilized ring of the nodes 3000, 3002 and 3001,
  with every finger exact, node 3001 looks up the key \<^verbatim>\<open>http://localhost:3002\<close>, whose
  identifier 11 is that of node 3002.  The key is not in the interval from 31 to 5; the
  closest preceding node of 3001 is 3002, since the interval test admits an entry whose
  identifier is the key itself; at 3002 the key is not in the interval from 11 to 31, and
  every finger of 3002 qualifies, the highest being 3001.  The lookup goes from 3001 to
  3002 and back for ever: \<open>findSuccessor\<close> has no value.
\<close>

theorem findSuccessor_never_returns:
  "findSuccessor sha1_table ring3 node3001 url3002 [] = None \<and>
   findPredecessor sha1_table ring3 node3001 url3002 [] = None"
proof (cases "lookupLoop sha1_table ring3 11 node3001 []")
  case None
  then show ?thesis
    by (simp add: findSuccessor_def findPredecessor_def node3001_fields hash_values)
next
  case (Some y)
  from lookup_11_cycle [OF this] show ?thesis by simp
qed

text \<open>
  The other half of claim C6 holds: a fetch that fails ends the lookup at once, with the
  error of the fetch as its result.
\<close>

lemma lookupLoop_fetch_failed:
  assumes "\<not> inInterval (Big key) (Big (node_id cur)) (entry_id (successor cur))
              (Big (ringSize cur))"
    and "entry_id (closestPrecedingNode cur key) \<noteq> Big (node_id cur)"
    and "info_reply w tr (entry_url (closestPrecedingNode cur key)) = Inl e"
  shows "lookupLoop sha1 w key cur tr =
           Some (Inl e, tr @ [GetInfo (entry_url (closestPrecedingNode cur key))])"
  using assms by (subst lookupLoop.simps) (simp add: fetchNodeInfo_def Let_def)

section \<open>Properties of join\<close>

lemma array_set_0: "array_set xs 0 v ! 0 = v"
  by (cases xs) (simp_all add: array_set_def)

text \<open>
  Claim C9.  \<open>join\<close> without an address makes the node a ring of its own: predecessor,
  successor and finger 0 are the node's own entry, so the identifiers of successor and
  predecessor are the node's (this holds from any state, a fresh node included).  \<open>join\<close>
  with an address fetches the state of the node there and runs \<open>findSuccessor\<close> on it with
  the joining node's own address as the key; when that returns an entry, the successor is
  that entry, the predecessor is absent and finger 0 is the new successor.
\<close>

theorem join_sets_ring_pointers:
  "(\<exists>this'. join sha1 w this None tr = Some (None, this', tr) \<and>
      predecessor this' = Some \<lparr>entry_id = Big (node_id this), entry_url = node_url this\<rparr> \<and>
      successor this' = \<lparr>entry_id = Big (node_id this), entry_url = node_url this\<rparr> \<and>
      fingerTable this' ! 0 = Some \<lparr>entry_id = Big (node_id this), entry_url = node_url this\<rparr> \<and>
      node_id this' = node_id this \<and>
      entry_id (successor this') = Big (node_id this') \<and>
      map_option entry_id (predecessor this') = Some (Big (node_id this'))) \<and>
   (fetchNodeInfo sha1 w existing tr = (Inr n, tr1) \<and>
    findSuccessor sha1 w n (node_url this) tr1 = Some (Inr succ, tr2) \<longrightarrow>
      (\<exists>this'. join sha1 w this (Some existing) tr = Some (None, this', tr2) \<and>
         successor this' = succ \<and> predecessor this' = None \<and>
         fingerTable this' ! 0 = Some succ))"
  by (simp add: join_def array_set_0)

lemma replicate_5: "replicate 5 x = [x, x, x, x, x]"
  by (simp add: eval_nat_numeral)

lemma join_null_fresh:
  "join sha1_table alone (new_Node sha1_table url3000 5 1000) None [] = Some (None, solo3000, [])"
  by (simp add: join_def solo3000_def new_Node_def array_set_def hash_values replicate_5)

theorem join_sets_ring_pointers_witness:
  "join sha1_table alone (new_Node sha1_table url3000 5 1000) None [] = Some (None, solo3000, []) \<and>
   fetchNodeInfo sha1_table ring3 url3000 [] = (Inr snap3000, [GetInfo url3000]) \<and>
   findSuccessor sha1_table ring3 snap3000 (node_url (new_Node sha1_table url3002 5 1000))
     [GetInfo url3000] = Some (Inr entry3002, [GetInfo url3000]) \<and>
   (\<exists>this'. join sha1_table ring3 (new_Node sha1_table url3002 5 1000) (Some url3000) [] =
        Some (None, this', [GetInfo url3000]) \<and>
      successor this' = entry3002 \<and> predecessor this' = None \<and>
      fingerTable this' ! 0 = Some entry3002)"
proof -
  have u: "node_url (new_Node sha1_table url3002 5 1000) = url3002"
    by (simp add: new_Node_def)
  have "inInterval (Big 11) (Big (node_id snap3000)) (entry_id (successor snap3000))
      (Big (ringSize snap3000))"
    by (simp add: snap3000_fields inInterval_big_id(1) [OF entry_numbers(3)])
  then have "lookupLoop sha1_table ring3 11 snap3000 [GetInfo url3000] =
      Some (Inr snap3000, [GetInfo url3000])"
    by (rule lookupLoop_owner_found)
  then have f: "findSuccessor sha1_table ring3 snap3000 url3002 [GetInfo url3000] =
      Some (Inr entry3002, [GetInfo url3000])"
    by (simp add: findSuccessor_def snap3000_fields hash_values)
  show ?thesis
    using join_sets_ring_pointers
      [of sha1_table ring3 "new_Node sha1_table url3002 5 1000" "[]" url3000 snap3000
          "[GetInfo url3000]" entry3002 "[GetInfo url3000]"]
      f ring3_fetch(1) [of "[]"] u join_null_fresh
    by simp
qed

section \<open>Properties of put\<close>

lemma cpn_3002_2: "closestPrecedingNode node3002 2 = entry3001"
  by (simp add: closestPrecedingNode_def node3002_fields
      inInterval_big_id(2) [OF entry_numbers(2)])

lemma lookup_k_from_3002:
  "findSuccessor sha1_table ring3 node3002 ''k'' [] = Some (Inr entry3000, [GetInfo url3001])"
proof -
  have "inInterval (Big 2) (Big (node_id snap3001)) (entry_id (successor snap3001))
      (Big (ringSize snap3001))"
    by (simp add: snap3001_fields inInterval_big_id(1) [OF entry_numbers(1)])
  then have "lookupLoop sha1_table ring3 2 snap3001 [GetInfo url3001] =
      Some (Inr snap3001, [GetInfo url3001])"
    by (rule lookupLoop_owner_found)
  moreover have "\<not> inInterval (Big 2) (Big (node_id node3002)) (entry_id (successor node3002))
      (Big (ringSize node3002))"
    by (simp add: node3002_fields inInterval_big_id(1) [OF entry_numbers(2)])
  ultimately have "lookupLoop sha1_table ring3 2 node3002 [] =
      Some (Inr snap3001, [GetInfo url3001])"
    by (subst lookupLoop.simps) (simp add: cpn_3002_2 entry_urls entry_not_big ring3_fetch)
  then show ?thesis
    by (simp add: findSuccessor_def node3002_fields snap3001_fields hash_values)
qed

lemma hopCounts_values:
  "le_zero hopCounts ''0''" "\<not> le_zero hopCounts ''1''" "\<not> le_zero hopCounts ''10''"
  "\<not> le_zero hopCounts ''9''"
  "minus_one hopCounts ''1'' = ''0''" "minus_one hopCounts ''10'' = ''9''"
  by (simp_all add: hopCounts_def string_values toString_def decimal.simps
      StringToBigInt_def trimString_def isStrWhiteSpace_def parseRadix_def digitValue_def)

lemma ring3_put:
  "put_reply ring3 tr u k v t =
     (if le_zero hopCounts t then Inl (AxiosStatus 400 TTLExpired) else Inr (KeyStored u k v))"
  by (simp add: ring3_def)

text \<open>
  Claim C5, as stated, fails where the owner answers the forwarded put with an error.  Node
  3002 receives a put of the key \<^verbatim>\<open>k\<close> with \<open>ttl = 1\<close>.  The owner is node 3000, and the put
  is forwarded to it with \<open>ttl = 0\<close>.  The owner answers as its handler does for a \<open>ttl\<close>
  that is used up, with status 400 and the TTL-expired body.  The caller does not get that
  answer: it gets status 500 and the body of a failed forward.
\<close>

theorem put_forward_error_not_relayed_counterexample:
  "put hopCounts sha1_table ring3 node3000 ''k'' ''v'' (Some ''0'') [] =
     Some (Inr (400, TTLExpired), node3000, []) \<and>
   put_reply ring3 [GetInfo url3001] url3000 ''k'' ''v'' ''0'' = Inl (AxiosStatus 400 TTLExpired) \<and>
   put hopCounts sha1_table ring3 node3002 ''k'' ''v'' (Some ''1'') [] =
     Some (Inr (500, ForwardFailed ''Request failed with status code 400''), node3002,
           [GetInfo url3001, PostPut url3000 ''k'' ''v'' ''0''])"
  by (simp add: put_def hopCounts_values lookup_k_from_3002 entry_urls node3002_fields
      ring3_put urls decimal.simps)

text \<open>
  Claim C5, amended.  When \<^verbatim>\<open>ttl <= 0\<close> holds the put is answered at once with status 400
  and the TTL-expired body; the node, its store included, and the trace are unchanged, so
  no lookup and no forward took place.  An absent \<open>ttl\<close> is 10.  Otherwise, when the lookup
  returns an owner whose address is not this node's, the trace of the lookup is followed by
  exactly one put to the owner's address with the same key and value and with the value of
  \<^verbatim>\<open>ttl - 1\<close>, and the node is unchanged.  When that request succeeds the answer is the
  owner's body with status 200.  When it fails, be it that the owner is not reached or that
  it answers with an error status, the caller gets status 500 and the body of a failed
  forward with the message of the failure, not the answer of the owner.
\<close>

theorem put_ttl_and_forwarding:
  "(le_zero js ttl \<longrightarrow>
      put js sha1 w node key val (Some ttl) tr = Some (Inr (400, TTLExpired), node, tr)) \<and>
   put js sha1 w node key val None tr = put js sha1 w node key val (Some ''10'') tr \<and>
   (\<not> le_zero js ttl \<and> findSuccessor sha1 w node key tr = Some (Inr owner, tr1) \<and>
    entry_url owner \<noteq> node_url node \<longrightarrow>
      (\<exists>resp. put js sha1 w node key val (Some ttl) tr =
           Some (Inr resp, node,
                 tr1 @ [PostPut (entry_url owner) key val (minus_one js ttl)]) \<and>
         (\<forall>data. put_reply w tr1 (entry_url owner) key val (minus_one js ttl) = Inr data \<longrightarrow>
                 resp = (200, data)) \<and>
         (\<forall>e. put_reply w tr1 (entry_url owner) key val (minus_one js ttl) = Inl e \<longrightarrow>
              resp = (500, ForwardFailed (message e)))))"
  by (auto simp add: put_def Let_def split: sum.splits)

theorem put_ttl_and_forwarding_witness:
  "le_zero hopCounts ''0'' \<and>
   put hopCounts sha1_table ring3 node3002 ''k'' ''v'' (Some ''0'') [] =
     Some (Inr (400, TTLExpired), node3002, []) \<and>
   \<not> le_zero hopCounts ''10'' \<and> minus_one hopCounts ''10'' = ''9'' \<and>
   findSuccessor sha1_table ring3 node3002 ''k'' [] = Some (Inr entry3000, [GetInfo url3001]) \<and>
   entry_url entry3000 \<noteq> node_url node3002 \<and>
   put hopCounts sha1_table ring3 node3002 ''k'' ''v'' None [] =
     Some (Inr (200, KeyStored url3000 ''k'' ''v''), node3002,
           [GetInfo url3001, PostPut url3000 ''k'' ''v'' ''9''])"
  using put_ttl_and_forwarding
      [of hopCounts "''0''" sha1_table ring3 node3002 "''k''" "''v''" "[]" entry3000
          "[GetInfo url3001]"]
    put_ttl_and_forwarding
      [of hopCounts "''10''" sha1_table ring3 node3002 "''k''" "''v''" "[]" entry3000
          "[GetInfo url3001]"]
    lookup_k_from_3002 hopCounts_values
  by (auto simp add: entry_urls urls node3002_fields ring3_put)

section \<open>Properties of the periodic task\<close>




section \<open>Properties of fixFingers\<close>

lemma fingerStart_3000_0: "fingerStart node3000 0 = 6"
  by (simp add: fingerStart_def node3000_fields signed_modulo_int_def)

lemma startKeyStr_3000_0: "startKeyStr node3000 0 = ''http://localhost:3000#finger6''"
  by (simp add: startKeyStr_def fingerStart_3000_0 toString_def decimal.simps node3000_fields urls)

lemma cpn_3000_27: "closestPrecedingNode node3000 27 = entry3002"
  by (simp add: closestPrecedingNode_def node3000_fields
      inInterval_big_id(2) [OF entry_numbers(2)] inInterval_big_id(2) [OF entry_numbers(3)])

lemma lookup_finger6_from_3000:
  "findSuccessor sha1_table ring3 node3000 ''http://localhost:3000#finger6'' [] =
     Some (Inr entry3001, [GetInfo url3002])"
proof -
  have "inInterval (Big 27) (Big (node_id snap3002)) (entry_id (successor snap3002))
      (Big (ringSize snap3002))"
    by (simp add: snap3002_fields inInterval_big_id(1) [OF entry_numbers(2)])
  then have "lookupLoop sha1_table ring3 27 snap3002 [GetInfo url3002] =
      Some (Inr snap3002, [GetInfo url3002])"
    by (rule lookupLoop_owner_found)
  moreover have "\<not> inInterval (Big 27) (Big (node_id node3000)) (entry_id (successor node3000))
      (Big (ringSize node3000))"
    by (simp add: node3000_fields inInterval_big_id(1) [OF entry_numbers(3)])
  ultimately have "lookupLoop sha1_table ring3 27 node3000 [] =
      Some (Inr snap3002, [GetInfo url3002])"
    by (subst lookupLoop.simps) (simp add: cpn_3000_27 entry_urls entry_not_big ring3_fetch)
  then show ?thesis
    by (simp add: findSuccessor_def node3000_fields snap3002_fields hash_values)
qed

text \<open>
  Claim C3 at a failing input.  Node 3000 (identifier 5) refreshes finger 0.  The target is
  \<open>(5 + 2 ^ 0) mod 32 = 6\<close>, whose successor on the ring is node 3002 (identifier 11), the
  node's own successor and the entry that finger 0 holds.  The lookup key is the string
  \<^verbatim>\<open>http://localhost:3000#finger6\<close>, which \<open>findSuccessor\<close> hashes: its identifier is 27,
  not 6.  The successor of 27 is node 3001 (identifier 31), and that is what \<open>fixFingers\<close>
  stores in slot 0, over the correct entry.
\<close>

theorem fixFingers_looks_up_hash_of_label:
  "fingerStart node3000 0 = 6 \<and>
   inInterval (Big 6) (Big (node_id node3000)) (entry_id (successor node3000))
     (Big (ringSize node3000)) \<and>
   successor node3000 = entry3002 \<and>
   fingerTable node3000 ! 0 = Some entry3002 \<and>
   startKeyStr node3000 0 = ''http://localhost:3000#finger6'' \<and>
   hashToID sha1_table (startKeyStr node3000 0) (node_m node3000) = 27 \<and>
   fixFingers sha1_table ring3 node3000 0 [] =
     Some (None,
           node3000\<lparr>fingerTable :=
             [Some entry3001, Some entry3002, Some entry3002, Some entry3001, Some entry3001]\<rparr>,
           [GetInfo url3002])"
  by (simp add: fingerStart_3000_0 startKeyStr_3000_0 lookup_finger6_from_3000 fixFingers_def
      node3000_fields hash_values inInterval_big_id(1) [OF entry_numbers(3)] array_set_def)

text \<open>
  The rest of claim C3 holds: a call that completes writes one slot, the one drawn, leaves
  every other slot as it was, and the entry it writes is the result of \<open>findSuccessor\<close> on
  the string made of the node's address, \<^verbatim>\<open>#finger\<close> and the decimal digits of
  \<open>(id + 2 ^ i) mod ringSize\<close>.
\<close>

lemma fixFingers_refreshes_one_slot:
  assumes "fixFingers sha1 w this i tr = Some (None, this', tr')" and "i < length (fingerTable this)"
  shows "length (fingerTable this') = length (fingerTable this) \<and>
         (\<forall>j < length (fingerTable this). j \<noteq> i \<longrightarrow> fingerTable this' ! j = fingerTable this ! j) \<and>
         findSuccessor sha1 w this
            (node_url this @ ''#finger'' @
             toString ((node_id this + 2 ^ i) smod ringSize this)) tr =
           Some (Inr (the (fingerTable this' ! i)), tr') \<and>
         this' = this\<lparr>fingerTable := fingerTable this'\<rparr>"
  using assms
  by (auto simp add: fixFingers_def startKeyStr_def fingerStart_def array_set_def push_bit_eq_mult
      split: if_splits option.splits sum.splits prod.splits)

section \<open>Properties of stabilization\<close>





lemma ring3_notify: "notify_reply ring3 tr u i v = Inr ()"
  by (simp add: ring3_def)




text \<open>
  The identifiers of the entries a node learns from its peers are strings, so the test
  \<^verbatim>\<open>key <= end\<close> of the wrapping branch compares two strings.  At node 3001 (identifier
  31), whose successor is node 3000 (identifier 5), the published predecessor of the
  successor is the node itself, and \<^verbatim>\<open>"31" <= "5"\<close> holds of the strings: the node adopts
  itself as its successor and notifies itself.
\<close>

lemma stabilize_wrapping_strings:
  "stabilize sha1_table ring3 node3001 [] =
     (None, node3001\<lparr>successor := entry3001\<rparr>,
      [GetInfo url3000, PostNotify url3001 ''31'' url3001])"
proof -
  have i: "inInterval (entry_id entry3001) (Big 31) (entry_id entry3000) (Big 32)"
    by (simp add: inInterval_def entries js_less_def js_greater_def js_greater_eq_def
        string_values)
  have t: "toString 31 = ''31''"
    by (simp add: toString_def decimal.simps)
  show ?thesis
    using i
    by (simp add: stabilize_def node3001_fields entry_not_big entry_urls ring3_fetch
        snap3000_fields t ring3_notify)
qed




end
